theory Spec2Isabelle
  imports Complex_Main
begin

section \<open>Python values\<close>

text \<open>
  The program passes loosely typed dictionaries around. A value is \<open>None\<close>, a number or
  a string. A number (Python \<open>int\<close>, \<open>float\<close> or \<open>numpy.float64\<close>) is modelled by its
  exact rational value: comparisons, truthiness and \<open>None\<close> tests are those of the
  program, while the rounding of binary64 arithmetic, signed zero, \<open>nan\<close>, \<open>inf\<close> and
  integers beyond the binary64 range are outside the model.
\<close>

datatype pyval = PNone | PNum rat | PStr string

text \<open>
  Exceptions are values. \<open>ExternalError\<close> stands for whatever a collaborator outside
  this program (the market-data client, the HTTP client) raises.
\<close>

datatype py_error = TypeError | ValueError | ZeroDivisionError | ExternalError

type_synonym pydict = "string \<rightharpoonup> pyval"

text \<open>\<open>d.get(k)\<close> and \<open>d.get(k, default)\<close>.\<close>

definition dict_get :: "pydict \<Rightarrow> string \<Rightarrow> pyval" where
  "dict_get d k = (case d k of None \<Rightarrow> PNone | Some v \<Rightarrow> v)"

definition dict_get_default :: "pydict \<Rightarrow> string \<Rightarrow> pyval \<Rightarrow> pyval" where
  "dict_get_default d k dflt = (case d k of None \<Rightarrow> dflt | Some v \<Rightarrow> v)"

text \<open>Truth value testing: \<open>None\<close>, zero and the empty string are false.\<close>

fun truthy :: "pyval \<Rightarrow> bool" where
  "truthy PNone = False"
| "truthy (PNum q) = (q \<noteq> 0)"
| "truthy (PStr s) = (s \<noteq> [])"

section \<open>Rendering numbers\<close>

definition digit_char :: "nat \<Rightarrow> char" where
  "digit_char d = ''0123456789'' ! (d mod 10)"

fun nat_digits :: "nat \<Rightarrow> string" where
  "nat_digits n = (if n < 10 then [digit_char n] else nat_digits (n div 10) @ [digit_char (n mod 10)])"

declare nat_digits.simps [simp del]

definition pad3 :: "nat \<Rightarrow> string" where
  "pad3 m = [digit_char (m div 100), digit_char (m div 10), digit_char m]"

fun comma_digits :: "nat \<Rightarrow> string" where
  "comma_digits n = (if n < 1000 then nat_digits n else comma_digits (n div 1000) @ '','' @ pad3 (n mod 1000))"

declare comma_digits.simps [simp del]

text \<open>Rounding to the nearest integer, ties to even, as the float formatter does.\<close>

definition round_half_even :: "rat \<Rightarrow> int" where
  "round_half_even q =
     (let f = \<lfloor>q\<rfloor>; d = q - of_int f
      in if d < 1 / 2 then f else if 1 / 2 < d then f + 1 else if even f then f else f + 1)"

text \<open>The format specifications \<open>.2f\<close> and \<open>,.0f\<close> on a number.\<close>

definition fmt_2f :: "rat \<Rightarrow> string" where
  "fmt_2f q =
     (let n = nat (round_half_even (\<bar>q\<bar> * 100))
      in (if q < 0 then ''-'' else '''') @ nat_digits (n div 100) @ ''.'' @
         [digit_char (n div 10), digit_char n])"

definition fmt_comma_0f :: "rat \<Rightarrow> string" where
  "fmt_comma_0f q =
     (if q < 0 then ''-'' else '''') @ comma_digits (nat (round_half_even \<bar>q\<bar>))"

section \<open>The built-in \<open>float\<close>\<close>

text \<open>
  \<open>float(s)\<close> on a string accepts a decimal literal
  \<open>[sign] (digits [. [digits]] | . digits) [(e|E) [sign] digits]\<close> between optional
  white space and raises \<open>ValueError\<close> otherwise. Digit separators, \<open>inf\<close>, \<open>nan\<close>
  and characters beyond ASCII are not modelled.
\<close>

definition is_space :: "char \<Rightarrow> bool" where
  "is_space c = (let n = (of_char c :: nat) in (9 \<le> n \<and> n \<le> 13) \<or> (28 \<le> n \<and> n \<le> 32))"

definition strip :: "string \<Rightarrow> string" where
  "strip s = rev (dropWhile is_space (rev (dropWhile is_space s)))"

definition is_digit :: "char \<Rightarrow> bool" where
  "is_digit c = (let n = (of_char c :: nat) in 48 \<le> n \<and> n \<le> 57)"

definition digit_val :: "char \<Rightarrow> nat" where
  "digit_val c = of_char c - 48"

definition parse_nat :: "string \<Rightarrow> nat option" where
  "parse_nat s =
     (if s \<noteq> [] \<and> list_all is_digit s
      then Some (foldl (\<lambda>a c. 10 * a + digit_val c) 0 s) else None)"

definition parse_opt_nat :: "string \<Rightarrow> nat option" where
  "parse_opt_nat s = (if s = [] then Some 0 else parse_nat s)"

definition split_first :: "(char \<Rightarrow> bool) \<Rightarrow> string \<Rightarrow> string \<times> string option" where
  "split_first p s =
     (case dropWhile (\<lambda>c. \<not> p c) s of
        [] \<Rightarrow> (s, None)
      | _ # r \<Rightarrow> (takeWhile (\<lambda>c. \<not> p c) s, Some r))"

definition split_sign :: "string \<Rightarrow> bool \<times> string" where
  "split_sign s =
     (case s of
        c # r \<Rightarrow> if c = CHR ''-'' then (True, r) else if c = CHR ''+'' then (False, r) else (False, s)
      | [] \<Rightarrow> (False, s))"

definition parse_mantissa :: "string \<Rightarrow> rat option" where
  "parse_mantissa m =
     (case split_first (\<lambda>c. c = CHR ''.'') m of
        (ip, None) \<Rightarrow> map_option of_nat (parse_nat ip)
      | (ip, Some fp) \<Rightarrow>
          if ip = [] \<and> fp = [] then None
          else (case (parse_opt_nat ip, parse_opt_nat fp) of
                  (Some i, Some f) \<Rightarrow> Some (of_nat i + of_nat f / 10 ^ length fp)
                | _ \<Rightarrow> None))"

definition parse_exponent :: "string option \<Rightarrow> int option" where
  "parse_exponent e =
     (case e of
        None \<Rightarrow> Some 0
      | Some es \<Rightarrow>
          (case split_sign es of
             (neg, ds) \<Rightarrow> map_option (\<lambda>n. if neg then - int n else int n) (parse_nat ds)))"

definition parse_float :: "string \<Rightarrow> rat option" where
  "parse_float s =
     (case split_sign (strip s) of
        (neg, u) \<Rightarrow>
          (case split_first (\<lambda>c. c = CHR ''e'' \<or> c = CHR ''E'') u of
             (m, e) \<Rightarrow>
               (case (parse_mantissa m, parse_exponent e) of
                  (Some q, Some x) \<Rightarrow>
                    (let v = (if 0 \<le> x then q * 10 ^ nat x else q / 10 ^ nat (- x))
                     in Some (if neg then - v else v))
                | _ \<Rightarrow> None)))"

fun py_float :: "pyval \<Rightarrow> py_error + rat" where
  "py_float PNone = Inl TypeError"
| "py_float (PNum q) = Inr q"
| "py_float (PStr s) = (case parse_float s of None \<Rightarrow> Inl ValueError | Some q \<Rightarrow> Inr q)"

section \<open>Money formatting\<close>

text \<open>
  \<open>fmt_money\<close>: \<open>None\<close> gives \<open>N/A\<close>; inside the \<open>try\<close> the value is converted with
  \<open>float\<close>, the sign is split off and the magnitude is scaled; any exception gives
  \<open>N/A\<close>.
\<close>

definition fmt_money :: "pyval \<Rightarrow> string" where
  "fmt_money x =
     (if x = PNone then ''N/A''
      else (case py_float x of
              Inl e \<Rightarrow> ''N/A''
            | Inr v \<Rightarrow>
                (let sign = (if v < 0 then ''-'' else ''''); a = \<bar>v\<bar>
                 in if 10 ^ 12 \<le> a then sign @ ''$'' @ fmt_2f (a / 10 ^ 12) @ ''T''
                    else if 10 ^ 9 \<le> a then sign @ ''$'' @ fmt_2f (a / 10 ^ 9) @ ''B''
                    else if 10 ^ 6 \<le> a then sign @ ''$'' @ fmt_2f (a / 10 ^ 6) @ ''M''
                    else sign @ ''$'' @ fmt_comma_0f a)))"

section \<open>Statement extractor\<close>

text \<open>
  A statement table is a data frame: column labels (reporting periods, most recent
  first), row labels (line items) and a cell for each pair. Labels are taken to be
  unique, as they are in the provider's statements, so that \<open>loc[row, col]\<close> is one cell.
  Reading the property \<open>financials\<close> or \<open>cashflow\<close> of the ticker object may raise, may
  give \<open>None\<close> or gives a frame.
\<close>

record frame =
  columns :: "string list"
  index :: "string list"
  cell :: "string \<Rightarrow> string \<Rightarrow> rat"

definition frame_empty :: "frame \<Rightarrow> bool" where
  "frame_empty f = (columns f = [] \<or> index f = [])"

record stock =
  financials :: "py_error + frame option"
  cashflow :: "py_error + frame option"

text \<open>\<open>if row in f.index: out[key] = f.loc[row, col]\<close>\<close>

definition take_row :: "frame \<Rightarrow> string \<Rightarrow> string \<Rightarrow> string \<Rightarrow> pydict \<Rightarrow> pydict" where
  "take_row f col row key out =
     (if row \<in> set (index f) then out(key \<mapsto> PNum (cell f row col)) else out)"

fun py_add :: "pyval \<Rightarrow> pyval \<Rightarrow> py_error + pyval" where
  "py_add (PNum a) (PNum b) = Inr (PNum (a + b))"
| "py_add (PStr a) (PStr b) = Inr (PStr (a @ b))"
| "py_add _ _ = Inl TypeError"

definition out_init :: pydict where
  "out_init =
     [''Revenue (TTM)'' \<mapsto> PNone,
      ''Net Income (TTM)'' \<mapsto> PNone,
      ''Operating Income (TTM)'' \<mapsto> PNone,
      ''EBITDA (TTM)'' \<mapsto> PNone,
      ''Cash From Ops (TTM)'' \<mapsto> PNone,
      ''CapEx (TTM)'' \<mapsto> PNone,
      ''Free Cash Flow (TTM)'' \<mapsto> PNone]"

text \<open>The first \<open>try\<close> block: a raise while reading the table leaves \<open>out\<close> as it is.\<close>

definition income_block :: "stock \<Rightarrow> pydict \<Rightarrow> pydict" where
  "income_block s out =
     (case financials s of
        Inl e \<Rightarrow> out
      | Inr None \<Rightarrow> out
      | Inr (Some fin) \<Rightarrow>
          if frame_empty fin then out
          else (let col = hd (columns fin);
                    out = take_row fin col ''Total Revenue'' ''Revenue (TTM)'' out;
                    out = take_row fin col ''Net Income'' ''Net Income (TTM)'' out;
                    out = take_row fin col ''Operating Income'' ''Operating Income (TTM)'' out;
                    out = take_row fin col ''EBITDA'' ''EBITDA (TTM)'' out
                in out))"

text \<open>
  The second \<open>try\<close> block. The sum \<open>cfo + capex\<close> is the last statement of the block, so
  a raise there would keep the two figures already stored.
\<close>

definition cashflow_block :: "stock \<Rightarrow> pydict \<Rightarrow> pydict" where
  "cashflow_block s out =
     (case cashflow s of
        Inl e \<Rightarrow> out
      | Inr None \<Rightarrow> out
      | Inr (Some cf) \<Rightarrow>
          if frame_empty cf then out
          else (let col = hd (columns cf);
                    out = take_row cf col ''Total Cash From Operating Activities'' ''Cash From Ops (TTM)'' out;
                    out = take_row cf col ''Capital Expenditures'' ''CapEx (TTM)'' out;
                    cfo = dict_get out ''Cash From Ops (TTM)'';
                    capex = dict_get out ''CapEx (TTM)''
                in if cfo \<noteq> PNone \<and> capex \<noteq> PNone
                   then (case py_add cfo capex of
                           Inl e \<Rightarrow> out
                         | Inr fcf \<Rightarrow> out(''Free Cash Flow (TTM)'' \<mapsto> fcf))
                   else out))"

definition get_statement_metrics :: "stock \<Rightarrow> pydict" where
  "get_statement_metrics s = cashflow_block s (income_block s out_init)"

section \<open>Metrics calculator\<close>

text \<open>Operators on values; an operand of the wrong type raises.\<close>

fun py_truediv :: "pyval \<Rightarrow> pyval \<Rightarrow> py_error + pyval" where
  "py_truediv (PNum a) (PNum b) = (if b = 0 then Inl ZeroDivisionError else Inr (PNum (a / b)))"
| "py_truediv _ _ = Inl TypeError"

fun py_sub :: "pyval \<Rightarrow> pyval \<Rightarrow> py_error + pyval" where
  "py_sub (PNum a) (PNum b) = Inr (PNum (a - b))"
| "py_sub _ _ = Inl TypeError"

text \<open>\<open>x * 100\<close>: a string is repeated.\<close>

fun py_mul100 :: "pyval \<Rightarrow> py_error + pyval" where
  "py_mul100 (PNum a) = Inr (PNum (a * 100))"
| "py_mul100 (PStr s) = Inr (PStr (concat (replicate 100 s)))"
| "py_mul100 PNone = Inl TypeError"

text \<open>\<open>x != 0\<close>\<close>

fun py_ne0 :: "pyval \<Rightarrow> bool" where
  "py_ne0 (PNum a) = (a \<noteq> 0)"
| "py_ne0 _ = True"

text \<open>The format specification \<open>.2f\<close> on a value.\<close>

fun py_format_2f :: "pyval \<Rightarrow> py_error + string" where
  "py_format_2f (PNum a) = Inr (fmt_2f a)"
| "py_format_2f (PStr s) = Inl ValueError"
| "py_format_2f PNone = Inl TypeError"

text \<open>\<open>round(x, 2)\<close>\<close>

fun py_round2 :: "pyval \<Rightarrow> py_error + pyval" where
  "py_round2 (PNum a) = Inr (PNum (of_int (round_half_even (a * 100)) / 100))"
| "py_round2 _ = Inl TypeError"

definition pbind :: "py_error + 'a \<Rightarrow> ('a \<Rightarrow> py_error + 'b) \<Rightarrow> py_error + 'b" where
  "pbind r f = (case r of Inl e \<Rightarrow> Inl e | Inr v \<Rightarrow> f v)"

abbreviation NA :: "py_error + pyval" where
  "NA \<equiv> Inr (PStr ''N/A'')"

text \<open>
  The right-hand sides that the function repeats, each as the source writes it:
  \<^item> \<open>f"{x * 100:.2f}%"\<close> guarded by \<open>x is not None\<close>;
  \<^item> \<open>f"{(n / revenue) * 100:.2f}%"\<close> guarded by
    \<open>revenue and revenue != 0 and n is not None\<close>;
  \<^item> \<open>f"${x:.2f}" if x else "N/A"\<close>;
  \<^item> \<open>round(x, 2) if x else "N/A"\<close>.
\<close>

definition percent :: "pyval \<Rightarrow> py_error + pyval" where
  "percent x =
     pbind (py_mul100 x) (\<lambda>y. pbind (py_format_2f y) (\<lambda>s. Inr (PStr (s @ ''%''))))"

definition percent_or_na :: "pyval \<Rightarrow> py_error + pyval" where
  "percent_or_na x = (if x \<noteq> PNone then percent x else NA)"

definition margin_or_na :: "pyval \<Rightarrow> pyval \<Rightarrow> py_error + pyval" where
  "margin_or_na revenue n =
     (if truthy revenue \<and> py_ne0 revenue \<and> n \<noteq> PNone
      then pbind (py_truediv n revenue) percent else NA)"

definition dollars_or_na :: "pyval \<Rightarrow> py_error + pyval" where
  "dollars_or_na x =
     (if truthy x then pbind (py_format_2f x) (\<lambda>s. Inr (PStr (''$'' @ s))) else NA)"

definition round_or_na :: "pyval \<Rightarrow> py_error + pyval" where
  "round_or_na x = (if truthy x then py_round2 x else NA)"

text \<open>
  The distance from the 52-week high,
  \<open>((current_price - high) / high) * 100\<close> rendered as \<open>f"{distance:.2f}%"\<close> under the
  guard \<open>current_price and high\<close>, and the last statement,
  \<open>round(info.get("beta", 0), 2) if info.get("beta") else "N/A"\<close>.
\<close>

definition distance_or_na :: "pyval \<Rightarrow> pyval \<Rightarrow> py_error + pyval" where
  "distance_or_na current_price high =
     (if truthy current_price \<and> truthy high
      then pbind (py_sub current_price high) (\<lambda>d. pbind (py_truediv d high) percent)
      else NA)"

definition beta_or_na :: "pydict \<Rightarrow> py_error + pyval" where
  "beta_or_na info =
     (if truthy (dict_get info ''beta'')
      then py_round2 (dict_get_default info ''beta'' (PNum 0)) else NA)"

text \<open>
  \<open>metrics\<close> is a dictionary in insertion order. The body of the \<open>try\<close> is a sequence of
  assignments \<open>metrics[label] = rhs\<close>; \<open>assignments\<close> lists them in source order, each
  right-hand side evaluated to a value or to the exception it raises. The \<open>except\<close>
  clause returns the dictionary as it stands at the first raise.
\<close>

type_synonym metrics = "(string \<times> pyval) list"

fun dict_set :: "metrics \<Rightarrow> string \<Rightarrow> pyval \<Rightarrow> metrics" where
  "dict_set [] k v = [(k, v)]"
| "dict_set ((k', v') # m) k v = (if k' = k then (k, v) # m else (k', v') # dict_set m k v)"

fun run_assignments :: "(string \<times> (py_error + pyval)) list \<Rightarrow> metrics \<Rightarrow> metrics" where
  "run_assignments [] m = m"
| "run_assignments ((k, Inl e) # rest) m = m"
| "run_assignments ((k, Inr v) # rest) m = run_assignments rest (dict_set m k v)"

definition assignments :: "pydict \<Rightarrow> pydict \<Rightarrow> (string \<times> (py_error + pyval)) list" where
  "assignments info statement_metrics =
     (let revenue = dict_get statement_metrics ''Revenue (TTM)'';
          net_income = dict_get statement_metrics ''Net Income (TTM)'';
          op_inc = dict_get statement_metrics ''Operating Income (TTM)'';
          ebitda = dict_get statement_metrics ''EBITDA (TTM)'';
          roe = dict_get_default info ''returnOnEquity'' PNone;
          rev_growth = dict_get_default info ''revenueGrowth'' PNone;
          earnings_growth = dict_get_default info ''earningsGrowth'' PNone;
          fifty_two_week_high = dict_get_default info ''fiftyTwoWeekHigh'' PNone;
          fifty_two_week_low = dict_get_default info ''fiftyTwoWeekLow'' PNone;
          current_price = dict_get_default info ''currentPrice'' PNone;
          trailing_pe = dict_get_default info ''trailingPE'' PNone;
          forward_pe = dict_get_default info ''forwardPE'' PNone;
          ps_ratio = dict_get_default info ''priceToSalesTrailing12Months'' PNone;
          div_yield = dict_get_default info ''dividendYield'' PNone;
          payout_ratio = dict_get_default info ''payoutRatio'' PNone
      in [(''Revenue (TTM)'', Inr (PStr (fmt_money (dict_get statement_metrics ''Revenue (TTM)'')))),
          (''Net Income (TTM)'', Inr (PStr (fmt_money (dict_get statement_metrics ''Net Income (TTM)'')))),
          (''Operating Income (TTM)'', Inr (PStr (fmt_money (dict_get statement_metrics ''Operating Income (TTM)'')))),
          (''EBITDA (TTM)'', Inr (PStr (fmt_money (dict_get statement_metrics ''EBITDA (TTM)'')))),
          (''Profit Margin'', margin_or_na revenue net_income),
          (''Operating Margin'', margin_or_na revenue op_inc),
          (''EBITDA Margin'', margin_or_na revenue ebitda),
          (''Return on Equity (ROE)'', percent_or_na roe),
          (''Revenue Growth (YoY)'', percent_or_na rev_growth),
          (''Earnings Growth (YoY)'', percent_or_na earnings_growth),
          (''Current Price'', Inr (dict_get_default info ''currentPrice'' (PStr ''N/A''))),
          (''Market Cap'', Inr (PStr (fmt_money (dict_get_default info ''marketCap'' PNone)))),
          (''52-Week High'', dollars_or_na fifty_two_week_high),
          (''52-Week Low'', dollars_or_na fifty_two_week_low),
          (''Distance from 52W High'', distance_or_na current_price fifty_two_week_high),
          (''P/E Ratio'', round_or_na trailing_pe),
          (''Forward P/E'', round_or_na forward_pe),
          (''Price to Sales (P/S)'', round_or_na ps_ratio),
          (''Dividend Yield'', percent_or_na div_yield),
          (''Payout Ratio'', percent_or_na payout_ratio),
          (''Beta'', beta_or_na info)])"

text \<open>The price history is a parameter of the function that its body never reads.\<close>

type_synonym history = "rat list"

definition calculate_key_metrics :: "pydict \<Rightarrow> history \<Rightarrow> pydict \<Rightarrow> metrics" where
  "calculate_key_metrics info hist statement_metrics =
     run_assignments (assignments info statement_metrics) []"

section \<open>News retriever\<close>

text \<open>
  The collaborators are parameters: the structured feed (\<open>yf.Ticker(ticker).news\<close>: it
  may raise, give \<open>None\<close> or a list of dictionaries), the clock formatting
  \<open>datetime.fromtimestamp(t).strftime(...)\<close> (\<open>None\<close> when it raises) and the HTTP client
  with the feed parser (it may raise, or gives a status code and the \<open>item\<close> elements,
  each with the text of its \<open>title\<close>, \<open>link\<close> and \<open>pubDate\<close> children when present).
\<close>

record news_item =
  Title :: pyval
  Publisher :: pyval
  Link :: pyval
  Published :: string

record rss_item =
  rss_title :: "string option"
  rss_link :: "string option"
  rss_pubDate :: "string option"

record rss_response =
  status_code :: nat
  rss_items :: "rss_item list"

record news_world =
  yf_news :: "string \<Rightarrow> py_error + pydict list option"
  strftime :: "rat \<Rightarrow> string option"
  http_get :: "string \<Rightarrow> py_error + rss_response"

text \<open>
  \<open>if pub_time and pub_time > 0\<close> with the inner \<open>try\<close> around the clock formatting.
  Comparing a non-empty string with \<open>0\<close> raises \<open>TypeError\<close>.
\<close>

fun published_of :: "(rat \<Rightarrow> string option) \<Rightarrow> pyval \<Rightarrow> py_error + string" where
  "published_of tf PNone = Inr ''Recent''"
| "published_of tf (PNum t) =
     (if t \<noteq> 0 \<and> 0 < t
      then (case tf t of Some d \<Rightarrow> Inr d | None \<Rightarrow> Inr ''Recent'')
      else Inr ''Recent'')"
| "published_of tf (PStr s) = (if s \<noteq> [] then Inl TypeError else Inr ''Recent'')"

text \<open>
  The loop over \<open>news[:10]\<close>. It appends to \<open>news_data\<close> in place, so a raise in a later
  iteration leaves the items appended so far in the list: the result is the list and
  the exception, if any.
\<close>

fun feed_loop ::
  "(rat \<Rightarrow> string option) \<Rightarrow> pydict list \<Rightarrow> news_item list \<Rightarrow> news_item list \<times> py_error option"
where
  "feed_loop tf [] news_data = (news_data, None)"
| "feed_loop tf (item # rest) news_data =
     (let title = dict_get_default item ''title'' (PStr ''N/A'');
          publisher = dict_get_default item ''publisher'' (PStr ''N/A'');
          link = dict_get_default item ''link'' (PStr ''N/A'');
          pub_time = dict_get_default item ''providerPublishTime'' (PNum 0)
      in case published_of tf pub_time of
           Inl e \<Rightarrow> (news_data, Some e)
         | Inr published \<Rightarrow>
             if title = PStr ''N/A'' \<and> publisher = PStr ''N/A'' \<and> link = PStr ''N/A''
             then feed_loop tf rest news_data
             else feed_loop tf rest
                    (news_data @
                     [\<lparr>Title = title, Publisher = publisher, Link = link, Published = published\<rparr>]))"

text \<open>\<open>s.rsplit(sep, 1)\<close> when \<open>sep\<close> occurs in \<open>s\<close>: the parts around its last occurrence.\<close>

fun find_sep :: "string \<Rightarrow> string \<Rightarrow> (string \<times> string) option" where
  "find_sep sep [] = (if sep = [] then Some ([], []) else None)"
| "find_sep sep (c # cs) =
     (if take (length sep) (c # cs) = sep then Some ([], drop (length sep) (c # cs))
      else map_option (\<lambda>(a, b). (c # a, b)) (find_sep sep cs))"

definition rsplit1 :: "string \<Rightarrow> string \<Rightarrow> (string \<times> string) option" where
  "rsplit1 sep s = map_option (\<lambda>(a, b). (rev b, rev a)) (find_sep (rev sep) (rev s))"

definition rss_entry :: "rss_item \<Rightarrow> news_item" where
  "rss_entry item =
     (let title = (case rss_title item of Some t \<Rightarrow> t | None \<Rightarrow> ''N/A'');
          link = (case rss_link item of Some l \<Rightarrow> l | None \<Rightarrow> ''N/A'');
          pub_date = (case rss_pubDate item of Some d \<Rightarrow> d | None \<Rightarrow> ''Recent'');
          (actual_title, publisher) =
             (case rsplit1 '' - '' title of
                Some (a, b) \<Rightarrow> (a, b)
              | None \<Rightarrow> (title, ''Google News''))
      in \<lparr>Title = PStr actual_title, Publisher = PStr publisher, Link = PStr link,
          Published = (if 16 < length pub_date then take 16 pub_date else pub_date)\<rparr>)"

definition rss_url :: "string \<Rightarrow> string" where
  "rss_url ticker =
     ''https://news.google.com/rss/search?q='' @ ticker @ ''+stock&hl=en-US&gl=US&ceid=US:en''"

definition placeholder :: "string \<Rightarrow> news_item" where
  "placeholder ticker =
     \<lparr>Title = PStr (''Click to view '' @ ticker @ '' news on Yahoo Finance''),
      Publisher = PStr ''Yahoo Finance'',
      Link = PStr (''https://finance.yahoo.com/quote/'' @ ticker @ ''/news''),
      Published = ''N/A''\<rparr>"

text \<open>
  Method 1 and method 2 each give the list \<open>news_data\<close> as they leave it and whether
  they returned it (\<open>if len(news_data) > 0: return news_data\<close>); both work on the same list.
\<close>

definition method1 :: "news_world \<Rightarrow> string \<Rightarrow> news_item list \<Rightarrow> news_item list \<times> bool" where
  "method1 w ticker news_data =
     (case yf_news w ticker of
        Inl e \<Rightarrow> (news_data, False)
      | Inr None \<Rightarrow> (news_data, False)
      | Inr (Some news) \<Rightarrow>
          if news \<noteq> [] \<and> 0 < length news
          then (case feed_loop (strftime w) (take 10 news) news_data of
                  (nd, Some e) \<Rightarrow> (nd, False)
                | (nd, None) \<Rightarrow> (nd, 0 < length nd))
          else (news_data, False))"

definition method2 :: "news_world \<Rightarrow> string \<Rightarrow> news_item list \<Rightarrow> news_item list \<times> bool" where
  "method2 w ticker news_data =
     (case http_get w (rss_url ticker) of
        Inl e \<Rightarrow> (news_data, False)
      | Inr response \<Rightarrow>
          if status_code response = 200
          then (let nd = news_data @ map rss_entry (take 10 (rss_items response))
                in (nd, 0 < length nd))
          else (news_data, False))"

definition get_stock_news :: "news_world \<Rightarrow> string \<Rightarrow> news_item list" where
  "get_stock_news w ticker =
     (case method1 w ticker [] of
        (news_data, True) \<Rightarrow> news_data
      | (news_data, False) \<Rightarrow>
          (case method2 w ticker news_data of
             (news_data, True) \<Rightarrow> news_data
           | (news_data, False) \<Rightarrow>
               if length news_data = 0 then news_data @ [placeholder ticker] else news_data))"

section \<open>Comparison mode\<close>

text \<open>
  The market-data provider is a parameter: for a ticker and a period code it raises or
  gives the ticker object, the price history and the quote fields. Only the emptiness
  of the history is read here. \<open>get_stock_data\<close> turns a raise into the triple of
  \<open>None\<close>s, here \<open>None\<close>.
\<close>

type_synonym provider = "string \<Rightarrow> string \<Rightarrow> py_error + stock \<times> history option \<times> pydict"

definition get_stock_data :: "provider \<Rightarrow> string \<Rightarrow> string \<Rightarrow> (stock \<times> history option \<times> pydict) option" where
  "get_stock_data yf ticker period =
     (case yf ticker period of Inl e \<Rightarrow> None | Inr r \<Rightarrow> Some r)"

text \<open>
  The sheet: the status cell \<open>B7\<close> and the cells of the region \<open>A10:Z200\<close> by row and
  column. Colours, fonts and column widths are not modelled. The cells \<open>B2\<close> to \<open>B5\<close>
  are the inputs; an empty cell reads as \<open>None\<close>, a text cell as its string.
\<close>

record sheet =
  status :: string
  region :: "nat \<times> nat \<rightharpoonup> pyval"

record inputs =
  ticker1 :: "string option"
  ticker2 :: "string option"
  ticker3 :: "string option"
  period_cell :: "string option"

record entry =
  e_stock :: stock
  e_hist :: history
  e_info :: pydict
  e_metrics :: metrics

definition to_upper :: "char \<Rightarrow> char" where
  "to_upper c =
     (let n = (of_char c :: nat) in if 97 \<le> n \<and> n \<le> 122 then char_of (n - 32) else c)"

definition period_map :: "(string \<times> string) list" where
  "period_map =
     [(''1 Week'', ''5d''), (''1 Month'', ''1mo''), (''3 Months'', ''3mo''),
      (''6 Months'', ''6mo''), (''1 Year'', ''1y''), (''2 Years'', ''2y''),
      (''5 Years'', ''5y''), (''Max'', ''max'')]"

definition period_of :: "string option \<Rightarrow> string" where
  "period_of c =
     (let period_option = (case c of None \<Rightarrow> ''1 Year'' | Some p \<Rightarrow> if p = [] then ''1 Year'' else p)
      in case map_of period_map (strip period_option) of None \<Rightarrow> ''1y'' | Some p \<Rightarrow> p)"

text \<open>\<open>for t in [ticker1, ticker2, ticker3]: if t and str(t).strip(): tickers.append(...)\<close>\<close>

fun build_tickers :: "string option list \<Rightarrow> string list" where
  "build_tickers [] = []"
| "build_tickers (None # ts) = build_tickers ts"
| "build_tickers (Some t # ts) =
     (if t \<noteq> [] \<and> strip t \<noteq> [] then map to_upper (strip t) # build_tickers ts
      else build_tickers ts)"

text \<open>
  The fetch loop. Both callees are total here, so the \<open>except\<close> branch around them is
  never taken. The loop gives the sheet and, unless it returned early, \<open>stock_data\<close>.
\<close>

fun fetch_all ::
  "provider \<Rightarrow> string \<Rightarrow> nat \<Rightarrow> nat \<Rightarrow> string list \<Rightarrow> (string \<rightharpoonup> entry) \<Rightarrow> sheet \<Rightarrow>
   sheet \<times> (string \<rightharpoonup> entry) option"
where
  "fetch_all yf period n i [] stock_data sh = (sh, Some stock_data)"
| "fetch_all yf period n i (ticker # rest) stock_data sh =
     (let sh = sh\<lparr>status := ''Loading '' @ ticker @ '' ('' @ nat_digits (i + 1) @ ''/'' @ nat_digits n @ '')...''\<rparr>
      in case get_stock_data yf ticker period of
           Some (stock, Some hist, info) \<Rightarrow>
             if hist \<noteq> []
             then (let statement_metrics = get_statement_metrics stock;
                       metrics = calculate_key_metrics info hist statement_metrics
                   in fetch_all yf period n (i + 1) rest
                        (stock_data(ticker \<mapsto>
                           \<lparr>e_stock = stock, e_hist = hist, e_info = info, e_metrics = metrics\<rparr>))
                        sh)
             else (sh\<lparr>status := ''Error loading '' @ ticker @ '' - no data returned''\<rparr>, None)
         | _ \<Rightarrow> (sh\<lparr>status := ''Error loading '' @ ticker @ '' - no data returned''\<rparr>, None))"

text \<open>Writing the comparison table, cell by cell, rows counted as the source counts them.\<close>

definition write_cell :: "nat \<Rightarrow> nat \<Rightarrow> pyval \<Rightarrow> sheet \<Rightarrow> sheet" where
  "write_cell r c v sh = sh\<lparr>region := (region sh)((r, c) \<mapsto> v)\<rparr>"

text \<open>
  \<open>for i, ticker in enumerate(tickers): sheet.range(row, i + 2).value = f(ticker)\<close>, where
  \<open>f\<close> reads \<open>stock_data[ticker]\<close>; every ticker of the list was stored by the fetch loop.
\<close>

fun write_columns ::
  "nat \<Rightarrow> nat \<Rightarrow> (string \<Rightarrow> entry \<Rightarrow> pyval) \<Rightarrow> (string \<rightharpoonup> entry) \<Rightarrow> string list \<Rightarrow> sheet \<Rightarrow> sheet"
where
  "write_columns row i f stock_data [] sh = sh"
| "write_columns row i f stock_data (ticker # rest) sh =
     (case stock_data ticker of
        None \<Rightarrow> sh
      | Some e \<Rightarrow> write_columns row (i + 1) f stock_data rest (write_cell row (i + 2) (f ticker e) sh))"

definition sections :: "(string \<times> string list) list" where
  "sections =
     [(''INCOME STATEMENT'',
         [''Revenue (TTM)'', ''Net Income (TTM)'', ''Operating Income (TTM)'', ''EBITDA (TTM)'']),
      (''PROFITABILITY & MARGINS'',
         [''Profit Margin'', ''Operating Margin'', ''EBITDA Margin'', ''Return on Equity (ROE)'']),
      (''GROWTH'', [''Revenue Growth (YoY)'', ''Earnings Growth (YoY)'']),
      (''VALUATION'',
         [''Current Price'', ''Market Cap'', ''52-Week High'', ''52-Week Low'',
          ''Distance from 52W High'', ''P/E Ratio'', ''Forward P/E'', ''Price to Sales (P/S)'']),
      (''DIVIDENDS'', [''Dividend Yield'', ''Payout Ratio'']),
      (''RISK'', [''Beta''])]"

fun write_metric_rows ::
  "(string \<rightharpoonup> entry) \<Rightarrow> string list \<Rightarrow> string list \<Rightarrow> nat \<Rightarrow> sheet \<Rightarrow> nat \<times> sheet"
where
  "write_metric_rows stock_data tickers [] row sh = (row, sh)"
| "write_metric_rows stock_data tickers (metric_name # rest) row sh =
     (let sh = write_cell row 1 (PStr metric_name) sh;
          sh = write_columns row 0
                 (\<lambda>ticker e. case map_of (e_metrics e) metric_name of
                                 None \<Rightarrow> PStr ''N/A'' | Some v \<Rightarrow> v)
                 stock_data tickers sh
      in write_metric_rows stock_data tickers rest (row + 1) sh)"

fun write_blanks :: "nat \<Rightarrow> nat \<Rightarrow> nat \<Rightarrow> sheet \<Rightarrow> sheet" where
  "write_blanks row c 0 sh = sh"
| "write_blanks row c (Suc k) sh = write_blanks row (c + 1) k (write_cell row c (PStr []) sh)"

fun write_sections ::
  "(string \<rightharpoonup> entry) \<Rightarrow> string list \<Rightarrow> (string \<times> string list) list \<Rightarrow> nat \<Rightarrow> sheet \<Rightarrow> nat \<times> sheet"
where
  "write_sections stock_data tickers [] row sh = (row, sh)"
| "write_sections stock_data tickers ((section_name, metric_keys) # rest) row sh =
     (let sh = write_cell row 1 (PStr section_name) sh;
          sh = write_blanks row 2 (length tickers) sh;
          (row, sh) = write_metric_rows stock_data tickers metric_keys (row + 1) sh
      in write_sections stock_data tickers rest (row + 1) sh)"

definition build_table :: "(string \<rightharpoonup> entry) \<Rightarrow> string list \<Rightarrow> sheet \<Rightarrow> sheet" where
  "build_table stock_data tickers sh =
     (let row = 10;
          sh = write_cell row 1 (PStr ''STOCK COMPARISON'') sh;
          row = row + 2;
          sh = write_cell row 1 (PStr ''Metric'') sh;
          sh = write_columns row 0 (\<lambda>ticker e. PStr ticker) stock_data tickers sh;
          row = row + 1;
          sh = write_cell row 1 (PStr ''Company Name'') sh;
          sh = write_columns row 0
                 (\<lambda>ticker e. dict_get_default (e_info e) ''longName'' (PStr ticker))
                 stock_data tickers sh;
          row = row + 1
      in snd (write_sections stock_data tickers sections row sh))"

text \<open>
  The final status line as the bytes of the source file. The chart is drawn between the
  table and the last status write; it is a picture beside the region and its failure
  is caught, so it changes neither the region nor the final status.
\<close>

definition complete_message :: string where
  "complete_message =
     [CHR 0xC3, CHR 0xA2, CHR 0xC5, CHR 0x93, CHR 0xE2, CHR 0x80, CHR 0x9C] @ '' Comparison complete!''"

definition compare_stocks :: "provider \<Rightarrow> inputs \<Rightarrow> sheet \<Rightarrow> sheet" where
  "compare_stocks yf inp sh =
     (let period = period_of (period_cell inp);
          tickers = build_tickers [ticker1 inp, ticker2 inp, ticker3 inp]
      in if length tickers < 2 then sh\<lparr>status := ''Please enter at least 2 tickers''\<rparr>
         else (let sh = sh\<lparr>region := Map.empty\<rparr>
               in case fetch_all yf period (length tickers) 0 tickers Map.empty sh of
                    (sh, None) \<Rightarrow> sh
                  | (sh, Some stock_data) \<Rightarrow>
                      (let sh = sh\<lparr>status := ''Building comparison table...''\<rparr>;
                           sh = build_table stock_data tickers sh;
                           sh = sh\<lparr>status := ''Creating chart...''\<rparr>
                       in sh\<lparr>status := complete_message\<rparr>)))"

section \<open>Vocabulary of the properties\<close>

text \<open>The labels of the metrics table, section by section, in their fixed order.\<close>

definition metric_labels :: "string list" where
  "metric_labels =
     [''Revenue (TTM)'', ''Net Income (TTM)'', ''Operating Income (TTM)'', ''EBITDA (TTM)'',
      ''Profit Margin'', ''Operating Margin'', ''EBITDA Margin'', ''Return on Equity (ROE)'',
      ''Revenue Growth (YoY)'', ''Earnings Growth (YoY)'',
      ''Current Price'', ''Market Cap'', ''52-Week High'', ''52-Week Low'',
      ''Distance from 52W High'', ''P/E Ratio'', ''Forward P/E'', ''Price to Sales (P/S)'',
      ''Dividend Yield'', ''Payout Ratio'',
      ''Beta'']"

text \<open>The statement figures and the quote fields on which the calculator computes.\<close>

definition statement_fields :: "string list" where
  "statement_fields =
     [''Revenue (TTM)'', ''Net Income (TTM)'', ''Operating Income (TTM)'', ''EBITDA (TTM)'']"

definition quote_fields :: "string list" where
  "quote_fields =
     [''returnOnEquity'', ''revenueGrowth'', ''earningsGrowth'', ''currentPrice'',
      ''fiftyTwoWeekHigh'', ''fiftyTwoWeekLow'', ''trailingPE'', ''forwardPE'',
      ''priceToSalesTrailing12Months'', ''dividendYield'', ''payoutRatio'', ''beta'']"

fun is_str :: "pyval \<Rightarrow> bool" where
  "is_str (PStr s) = True"
| "is_str _ = False"

fun is_num :: "pyval \<Rightarrow> bool" where
  "is_num (PNum q) = True"
| "is_num _ = False"

text \<open>A field is numeric when it is absent, \<open>None\<close> or a number.\<close>

definition numeric_fields :: "pydict \<Rightarrow> string list \<Rightarrow> bool" where
  "numeric_fields d ks = list_all (\<lambda>k. \<not> is_str (dict_get d k)) ks"










text \<open>
  What one lookup of the statement extractor finds: the cell of the row in the first
  column when the table was read, is not \<open>None\<close>, is not empty and has the row, and
  \<open>None\<close> otherwise.
\<close>

definition lookup_row :: "(py_error + frame option) \<Rightarrow> string \<Rightarrow> pyval" where
  "lookup_row t row =
     (case t of
        Inr (Some f) \<Rightarrow>
          if \<not> frame_empty f \<and> row \<in> set (index f) then PNum (cell f row (hd (columns f)))
          else PNone
      | _ \<Rightarrow> PNone)"

text \<open>The free cash flow as the specification words it, from the two stored operands.\<close>

fun fcf_spec :: "pyval \<Rightarrow> pyval \<Rightarrow> pyval" where
  "fcf_spec (PNum cfo) (PNum capex) = PNum (cfo + capex)"
| "fcf_spec _ _ = PNone"

text \<open>
  A ticker object for the examples: no income statement, and a cash-flow statement of
  one period with the two rows that the free cash flow adds.
\<close>

definition example_cashflow :: frame where
  "example_cashflow =
     \<lparr>columns = [''2024-09-30''],
      index = [''Total Cash From Operating Activities'', ''Capital Expenditures''],
      cell = (\<lambda>row col. if row = ''Capital Expenditures'' then - 1200000000 else 5000000000)\<rparr>"

definition example_stock :: stock where
  "example_stock = \<lparr>financials = Inl ExternalError, cashflow = Inr (Some example_cashflow)\<rparr>"

text \<open>
  Acquisition fails for a ticker when the provider raises, gives no history or gives
  an empty one; the status line written then.
\<close>

definition acquisition_fails :: "provider \<Rightarrow> string \<Rightarrow> string \<Rightarrow> bool" where
  "acquisition_fails yf period ticker =
     (case get_stock_data yf ticker period of
        Some (stock, Some hist, info) \<Rightarrow> hist = []
      | _ \<Rightarrow> True)"

definition error_loading :: "string \<Rightarrow> string" where
  "error_loading ticker = ''Error loading '' @ ticker @ '' - no data returned''"

text \<open>A provider for the examples: it knows \<open>AAPL\<close> and \<open>MSFT\<close> and raises on any other ticker.\<close>

definition example_provider :: provider where
  "example_provider ticker period =
     (if ticker = ''AAPL'' \<or> ticker = ''MSFT''
      then Inr (example_stock, Some [100, 101], [''longName'' \<mapsto> PStr ticker])
      else Inl ExternalError)"

definition blank_sheet :: sheet where
  "blank_sheet = \<lparr>status = [], region = Map.empty\<rparr>"

text \<open>
  A structured feed of ten items whose last item carries a text where the publication
  time is expected, and an RSS answer of ten items.
\<close>

definition failing_feed :: "pydict list" where
  "failing_feed =
     replicate 9 [''title'' \<mapsto> PStr ''headline''] @
     [[''title'' \<mapsto> PStr ''headline'', ''providerPublishTime'' \<mapsto> PStr ''2025-01-01'']]"

definition failing_world :: news_world where
  "failing_world =
     \<lparr>yf_news = (\<lambda>ticker. Inr (Some failing_feed)),
      strftime = (\<lambda>t. None),
      http_get = (\<lambda>url. Inr \<lparr>status_code = 200,
                             rss_items = replicate 10 \<lparr>rss_title = Some ''headline - Reuters'',
                                                       rss_link = Some ''https://example.com'',
                                                       rss_pubDate = None\<rparr>\<rparr>)\<rparr>"

text \<open>A world in which both news sources fail.\<close>

definition silent_world :: news_world where
  "silent_world =
     \<lparr>yf_news = (\<lambda>ticker. Inl ExternalError), strftime = (\<lambda>t. None),
      http_get = (\<lambda>url. Inl ExternalError)\<rparr>"

text \<open>Input cells for the examples: one ticker only, and a known with an unknown ticker.\<close>

definition one_ticker :: inputs where
  "one_ticker = \<lparr>ticker1 = Some ''aapl'', ticker2 = None, ticker3 = None, period_cell = None\<rparr>"

definition unknown_ticker :: inputs where
  "unknown_ticker =
     \<lparr>ticker1 = Some ''aapl'', ticker2 = Some '' tsla '', ticker3 = None, period_cell = None\<rparr>"

section \<open>Rendering: shape of the digits\<close>









section \<open>Money formatting: units by magnitude\<close>






section \<open>The metrics dictionary: running the assignments\<close>

lemma dict_get_default_None: "dict_get_default d k PNone = dict_get d k"
  by (simp add: dict_get_default_def dict_get_def)

lemma dict_set_fresh: "k \<notin> fst ` set m \<Longrightarrow> dict_set m k v = m @ [(k, v)]"
  by (induction m) auto

text \<open>When no right-hand side raises and the labels differ, every assignment appends.\<close>

lemma run_assignments_all_ok:
  "list_all (\<lambda>a. \<not> isl (snd a)) as \<Longrightarrow> distinct (map fst m @ map fst as) \<Longrightarrow>
   run_assignments as m = m @ map (\<lambda>a. (fst a, projr (snd a))) as"
proof (induction as arbitrary: m)
  case Nil
  then show ?case by simp
next
  case (Cons a as)
  obtain k r where a: "a = (k, r)" by (cases a)
  with Cons.prems obtain v where r: "r = Inr v" by (cases r) auto
  from Cons.prems a have fresh: "k \<notin> fst ` set m" by auto
  have "run_assignments (a # as) m = run_assignments as (m @ [(k, v)])"
    by (simp add: a r dict_set_fresh [OF fresh])
  also have "\<dots> = (m @ [(k, v)]) @ map (\<lambda>a. (fst a, projr (snd a))) as"
    using Cons.prems a by (intro Cons.IH) auto
  finally show ?case by (simp add: a r)
qed

lemma run_assignments_append:
  "list_all (\<lambda>a. \<not> isl (snd a)) pre \<Longrightarrow>
   run_assignments (pre @ post) m = run_assignments post (run_assignments pre m)"
proof (induction pre arbitrary: m)
  case Nil
  then show ?case by simp
next
  case (Cons a pre)
  obtain k r where a: "a = (k, r)" by (cases a)
  with Cons.prems obtain v where r: "r = Inr v" by (cases r) auto
  with Cons a show ?case by simp
qed

lemma map_of_dict_set: "map_of (dict_set m k v) = (map_of m)(k \<mapsto> v)"
  by (induction m) (auto simp: fun_eq_iff)

lemma map_of_run_assignments_other:
  "k \<notin> fst ` set as \<Longrightarrow> map_of (run_assignments as m) k = map_of m k"
proof (induction as m rule: run_assignments.induct)
  case (3 k' v rest m)
  then show ?case by (auto simp: map_of_dict_set)
qed simp_all

text \<open>
  A label assigned among the first \<open>n\<close> statements, none of which raises, keeps its value
  whatever the later statements do.
\<close>

lemma lookup_through_prefix:
  assumes "list_all (\<lambda>a. \<not> isl (snd a)) (take n as)"
    and "k \<notin> fst ` set (drop n as)"
  shows "map_of (run_assignments as []) k = map_of (run_assignments (take n as) []) k"
proof -
  have "run_assignments as [] = run_assignments (drop n as) (run_assignments (take n as) [])"
    using run_assignments_append [OF assms(1), of "drop n as" "[]"] by simp
  then show ?thesis
    using assms(2) by (simp add: map_of_run_assignments_other)
qed

lemma assignments_labels: "map fst (assignments info sm) = metric_labels"
  by (simp add: assignments_def Let_def metric_labels_def)

lemma distinct_metric_labels: "distinct metric_labels"
  by (simp add: metric_labels_def)

subsection \<open>The right-hand sides on numeric fields\<close>

lemma percent_num: "percent (PNum q) = Inr (PStr (fmt_2f (q * 100) @ ''%''))"
  by (simp add: percent_def pbind_def)

lemma percent_or_na_str:
  "\<not> is_str x \<Longrightarrow> \<not> isl (percent_or_na x) \<and> is_str (projr (percent_or_na x))"
  by (cases x) (simp_all add: percent_or_na_def percent_num)

lemma margin_or_na_str:
  "\<not> is_str r \<Longrightarrow> \<not> is_str n \<Longrightarrow>
   \<not> isl (margin_or_na r n) \<and> is_str (projr (margin_or_na r n))"
  by (cases r; cases n) (simp_all add: margin_or_na_def percent_num pbind_def)

lemma dollars_or_na_str:
  "\<not> is_str x \<Longrightarrow> \<not> isl (dollars_or_na x) \<and> is_str (projr (dollars_or_na x))"
  by (cases x) (simp_all add: dollars_or_na_def pbind_def)

lemma distance_or_na_str:
  "\<not> is_str c \<Longrightarrow> \<not> is_str h \<Longrightarrow>
   \<not> isl (distance_or_na c h) \<and> is_str (projr (distance_or_na c h))"
  by (cases c; cases h) (simp_all add: distance_or_na_def percent_num pbind_def)

lemma round_or_na_num:
  "\<not> is_str x \<Longrightarrow>
   \<not> isl (round_or_na x) \<and>
   (projr (round_or_na x) = PStr ''N/A'' \<or> is_num (projr (round_or_na x)))"
  by (cases x) (simp_all add: round_or_na_def)

lemma beta_or_na_num:
  "\<not> is_str (dict_get info ''beta'') \<Longrightarrow>
   \<not> isl (beta_or_na info) \<and>
   (projr (beta_or_na info) = PStr ''N/A'' \<or> is_num (projr (beta_or_na info)))"
  by (cases "info ''beta''"; cases "dict_get info ''beta''")
    (simp_all add: beta_or_na_def dict_get_def dict_get_default_def)

subsection \<open>The table on numeric fields\<close>

lemma numeric_quote_fields:
  assumes "numeric_fields info quote_fields"
  shows "\<not> is_str (dict_get info ''returnOnEquity'')"
    and "\<not> is_str (dict_get info ''revenueGrowth'')"
    and "\<not> is_str (dict_get info ''earningsGrowth'')"
    and "\<not> is_str (dict_get info ''currentPrice'')"
    and "\<not> is_str (dict_get info ''fiftyTwoWeekHigh'')"
    and "\<not> is_str (dict_get info ''fiftyTwoWeekLow'')"
    and "\<not> is_str (dict_get info ''trailingPE'')"
    and "\<not> is_str (dict_get info ''forwardPE'')"
    and "\<not> is_str (dict_get info ''priceToSalesTrailing12Months'')"
    and "\<not> is_str (dict_get info ''dividendYield'')"
    and "\<not> is_str (dict_get info ''payoutRatio'')"
    and "\<not> is_str (dict_get info ''beta'')"
  using assms by (simp_all add: numeric_fields_def quote_fields_def)

lemma numeric_statement_fields:
  assumes "numeric_fields sm statement_fields"
  shows "\<not> is_str (dict_get sm ''Revenue (TTM)'')"
    and "\<not> is_str (dict_get sm ''Net Income (TTM)'')"
    and "\<not> is_str (dict_get sm ''Operating Income (TTM)'')"
    and "\<not> is_str (dict_get sm ''EBITDA (TTM)'')"
  using assms by (simp_all add: numeric_fields_def statement_fields_def)

lemma assignments_ok:
  assumes "numeric_fields info quote_fields" and "numeric_fields sm statement_fields"
  shows "list_all (\<lambda>a. \<not> isl (snd a)) (assignments info sm)"
  using numeric_quote_fields [OF assms(1)] numeric_statement_fields [OF assms(2)]
  by (simp add: assignments_def Let_def dict_get_default_None percent_or_na_str
      margin_or_na_str dollars_or_na_str distance_or_na_str round_or_na_num beta_or_na_num)

lemma table_explicit:
  assumes "numeric_fields info quote_fields" and "numeric_fields sm statement_fields"
  shows "calculate_key_metrics info hist sm =
         map (\<lambda>a. (fst a, projr (snd a))) (assignments info sm)"
  unfolding calculate_key_metrics_def
  using run_assignments_all_ok [OF assignments_ok [OF assms], of "[]"]
  by (simp add: assignments_labels distinct_metric_labels)

section \<open>The metrics table: labels and values\<close>









lemma numeric_fields_empty: "numeric_fields Map.empty ks"
  by (induction ks) (simp_all add: numeric_fields_def dict_get_def)






lemma numeric_fields_update:
  "numeric_fields d ks \<Longrightarrow> \<not> is_str v \<Longrightarrow> numeric_fields (d(k \<mapsto> v)) ks"
  by (induction ks) (simp_all add: numeric_fields_def dict_get_def)




section \<open>Margins\<close>








section \<open>Zero: falsy for the beta and the 52-week high, a value for money\<close>

lemma assignments_beta_zero:
  "assignments (info(''beta'' \<mapsto> PNum 0)) sm = assignments (info(''beta'' := None)) sm"
  by (simp add: assignments_def Let_def dict_get_def dict_get_default_def beta_or_na_def)

lemma assignments_high_zero:
  "assignments (info(''fiftyTwoWeekHigh'' \<mapsto> PNum 0)) sm =
   assignments (info(''fiftyTwoWeekHigh'' := None)) sm"
  by (simp add: assignments_def Let_def dict_get_def dict_get_default_def beta_or_na_def
      dollars_or_na_def distance_or_na_def)

lemma map_of_map_snd:
  "map_of (map (\<lambda>a. (fst a, f (snd a))) xs) k = map_option f (map_of xs k)"
  by (induction xs) auto

lemma map_of_table:
  assumes "numeric_fields info quote_fields" and "numeric_fields sm statement_fields"
  shows "map_of (calculate_key_metrics info hist sm) k =
         map_option (\<lambda>r. projr r) (map_of (assignments info sm) k)"
  unfolding table_explicit [OF assms] by (rule map_of_map_snd)

text \<open>
  C7. A beta of \<open>0\<close> and a 52-week high of \<open>0\<close> give the table that the absent field
  gives; on numeric fields the beta and the 52-week high then read \<open>N/A\<close>.
\<close>

theorem zero_as_absent:
  "calculate_key_metrics (info(''beta'' \<mapsto> PNum 0)) hist sm =
     calculate_key_metrics (info(''beta'' := None)) hist sm \<and>
   calculate_key_metrics (info(''fiftyTwoWeekHigh'' \<mapsto> PNum 0)) hist sm =
     calculate_key_metrics (info(''fiftyTwoWeekHigh'' := None)) hist sm \<and>
   (numeric_fields info quote_fields \<and> numeric_fields sm statement_fields \<longrightarrow>
      map_of (calculate_key_metrics (info(''beta'' \<mapsto> PNum 0)) hist sm) ''Beta'' =
        Some (PStr ''N/A'') \<and>
      map_of (calculate_key_metrics (info(''fiftyTwoWeekHigh'' \<mapsto> PNum 0)) hist sm)
        ''52-Week High'' = Some (PStr ''N/A''))"
proof (intro conjI impI)
  show "calculate_key_metrics (info(''beta'' \<mapsto> PNum 0)) hist sm =
        calculate_key_metrics (info(''beta'' := None)) hist sm"
    by (simp add: calculate_key_metrics_def assignments_beta_zero)
  show "calculate_key_metrics (info(''fiftyTwoWeekHigh'' \<mapsto> PNum 0)) hist sm =
        calculate_key_metrics (info(''fiftyTwoWeekHigh'' := None)) hist sm"
    by (simp add: calculate_key_metrics_def assignments_high_zero)
next
  assume n: "numeric_fields info quote_fields \<and> numeric_fields sm statement_fields"
  then have b: "numeric_fields (info(''beta'' \<mapsto> PNum 0)) quote_fields"
    and h: "numeric_fields (info(''fiftyTwoWeekHigh'' \<mapsto> PNum 0)) quote_fields"
    by (simp_all add: numeric_fields_update)
  from n have s: "numeric_fields sm statement_fields" by simp
  show "map_of (calculate_key_metrics (info(''beta'' \<mapsto> PNum 0)) hist sm) ''Beta'' =
        Some (PStr ''N/A'')"
    unfolding map_of_table [OF b s]
    by (simp add: assignments_def Let_def beta_or_na_def dict_get_def)
  show "map_of (calculate_key_metrics (info(''fiftyTwoWeekHigh'' \<mapsto> PNum 0)) hist sm)
          ''52-Week High'' = Some (PStr ''N/A'')"
    unfolding map_of_table [OF h s]
    by (simp add: assignments_def Let_def dollars_or_na_def dict_get_default_def)
qed

theorem zero_as_absent_witness:
  "map_of (calculate_key_metrics [''beta'' \<mapsto> PNum 0] [] Map.empty) ''Beta'' =
     Some (PStr ''N/A'') \<and>
   map_of (calculate_key_metrics [''fiftyTwoWeekHigh'' \<mapsto> PNum 0] [] Map.empty)
     ''52-Week High'' = Some (PStr ''N/A'')"
proof -
  have "numeric_fields Map.empty quote_fields \<and> numeric_fields Map.empty statement_fields"
    by (simp add: numeric_fields_empty)
  with zero_as_absent [of Map.empty "[]" Map.empty] show ?thesis by blast
qed

lemma take4_assignments:
  "take 4 (assignments info sm) =
     [(''Revenue (TTM)'', Inr (PStr (fmt_money (dict_get sm ''Revenue (TTM)'')))),
      (''Net Income (TTM)'', Inr (PStr (fmt_money (dict_get sm ''Net Income (TTM)'')))),
      (''Operating Income (TTM)'', Inr (PStr (fmt_money (dict_get sm ''Operating Income (TTM)'')))),
      (''EBITDA (TTM)'', Inr (PStr (fmt_money (dict_get sm ''EBITDA (TTM)''))))]"
  by (simp add: assignments_def Let_def)

lemma statement_labels_not_later:
  "k \<in> set statement_fields \<Longrightarrow> k \<notin> fst ` set (drop 4 (assignments info sm))"
proof -
  have "map fst (drop 4 (assignments info sm)) = drop 4 metric_labels"
    by (simp add: drop_map [symmetric] assignments_labels)
  then have "fst ` set (drop 4 (assignments info sm)) = set (drop 4 metric_labels)"
    by (metis set_map)
  then show "k \<in> set statement_fields \<Longrightarrow> k \<notin> fst ` set (drop 4 (assignments info sm))"
    by (auto simp: metric_labels_def statement_fields_def)
qed

lemma statement_money_lookup:
  assumes "k \<in> set statement_fields"
  shows "map_of (calculate_key_metrics info hist sm) k = Some (PStr (fmt_money (dict_get sm k)))"
proof -
  have ok: "list_all (\<lambda>a. \<not> isl (snd a)) (take 4 (assignments info sm))"
    by (simp add: take4_assignments)
  have "map_of (calculate_key_metrics info hist sm) k =
        map_of (run_assignments (take 4 (assignments info sm)) []) k"
    unfolding calculate_key_metrics_def
    by (rule lookup_through_prefix [OF ok statement_labels_not_later [OF assms]])
  with assms show ?thesis
    by (auto simp: take4_assignments statement_fields_def)
qed

lemma fmt_money_zero: "fmt_money (PNum 0) = ''$0''"
  by code_simp

text \<open>
  C10. \<open>fmt_money(0)\<close> is \<open>$0\<close>. A statement figure of \<open>0\<close> shows as \<open>$0\<close> under its
  label whatever the other fields are, and so does a market cap of \<open>0\<close> on numeric
  fields; a beta or a 52-week high of \<open>0\<close> is sent to the \<open>N/A\<close> branch instead.
\<close>

theorem zero_money_is_a_value:
  "fmt_money (PNum 0) = ''$0'' \<and>
   (\<forall>k \<in> set statement_fields.
      sm k = Some (PNum 0) \<longrightarrow>
      map_of (calculate_key_metrics info hist sm) k = Some (PStr ''$0'')) \<and>
   (numeric_fields info quote_fields \<and> numeric_fields sm statement_fields \<and>
    info ''marketCap'' = Some (PNum 0) \<longrightarrow>
      map_of (calculate_key_metrics info hist sm) ''Market Cap'' = Some (PStr ''$0'')) \<and>
   beta_or_na (info(''beta'' \<mapsto> PNum 0)) = NA \<and>
   dollars_or_na (PNum 0) = NA"
proof (intro conjI ballI impI)
  show "fmt_money (PNum 0) = ''$0''" by (rule fmt_money_zero)
  show "beta_or_na (info(''beta'' \<mapsto> PNum 0)) = NA"
    by (simp add: beta_or_na_def dict_get_def)
  show "dollars_or_na (PNum 0) = NA"
    by (simp add: dollars_or_na_def)
next
  fix k assume "k \<in> set statement_fields" and "sm k = Some (PNum 0)"
  then show "map_of (calculate_key_metrics info hist sm) k = Some (PStr ''$0'')"
    by (simp add: statement_money_lookup dict_get_def fmt_money_zero)
next
  assume a: "numeric_fields info quote_fields \<and> numeric_fields sm statement_fields \<and>
    info ''marketCap'' = Some (PNum 0)"
  then have "map_of (calculate_key_metrics info hist sm) ''Market Cap'' =
      map_option (\<lambda>r. projr r) (map_of (assignments info sm) ''Market Cap'')"
    by (simp add: map_of_table)
  with a show "map_of (calculate_key_metrics info hist sm) ''Market Cap'' = Some (PStr ''$0'')"
    by (simp add: assignments_def Let_def dict_get_default_def fmt_money_zero)
qed

theorem zero_money_is_a_value_witness:
  "map_of (calculate_key_metrics [''marketCap'' \<mapsto> PNum 0] [] [''Revenue (TTM)'' \<mapsto> PNum 0])
     ''Revenue (TTM)'' = Some (PStr ''$0'') \<and>
   map_of (calculate_key_metrics [''marketCap'' \<mapsto> PNum 0] [] [''Revenue (TTM)'' \<mapsto> PNum 0])
     ''Market Cap'' = Some (PStr ''$0'')"
proof -
  have a: "numeric_fields [''marketCap'' \<mapsto> PNum 0] quote_fields"
    by (intro numeric_fields_update numeric_fields_empty) simp
  have b: "numeric_fields [''Revenue (TTM)'' \<mapsto> PNum 0] statement_fields"
    by (intro numeric_fields_update numeric_fields_empty) simp
  show ?thesis
    using zero_money_is_a_value [of "[''Revenue (TTM)'' \<mapsto> PNum 0]"
        "[''marketCap'' \<mapsto> PNum 0]" "[]"] a b
    by (simp add: statement_fields_def)
qed

section \<open>Statement extractor: one field per lookup\<close>

lemma income_block_other:
  "k \<notin> {''Revenue (TTM)'', ''Net Income (TTM)'', ''Operating Income (TTM)'', ''EBITDA (TTM)''} \<Longrightarrow>
   income_block s out k = out k"
  by (auto simp: income_block_def take_row_def Let_def split: sum.splits option.splits)

lemma income_block_fields:
  "income_block s out_init ''Revenue (TTM)'' = Some (lookup_row (financials s) ''Total Revenue'')"
  "income_block s out_init ''Net Income (TTM)'' = Some (lookup_row (financials s) ''Net Income'')"
  "income_block s out_init ''Operating Income (TTM)'' =
     Some (lookup_row (financials s) ''Operating Income'')"
  "income_block s out_init ''EBITDA (TTM)'' = Some (lookup_row (financials s) ''EBITDA'')"
  by (auto simp: income_block_def take_row_def Let_def lookup_row_def out_init_def
      split: sum.splits option.splits)

lemma cashflow_block_other:
  "k \<notin> {''Cash From Ops (TTM)'', ''CapEx (TTM)'', ''Free Cash Flow (TTM)''} \<Longrightarrow>
   cashflow_block s out k = out k"
  by (auto simp: cashflow_block_def take_row_def Let_def split: sum.splits option.splits)

lemma cashflow_block_fields:
  assumes "out ''Cash From Ops (TTM)'' = Some PNone" and "out ''CapEx (TTM)'' = Some PNone"
    and "out ''Free Cash Flow (TTM)'' = Some PNone"
  shows "cashflow_block s out ''Cash From Ops (TTM)'' =
           Some (lookup_row (cashflow s) ''Total Cash From Operating Activities'')"
    and "cashflow_block s out ''CapEx (TTM)'' =
           Some (lookup_row (cashflow s) ''Capital Expenditures'')"
    and "cashflow_block s out ''Free Cash Flow (TTM)'' =
           Some (fcf_spec (lookup_row (cashflow s) ''Total Cash From Operating Activities'')
                   (lookup_row (cashflow s) ''Capital Expenditures''))"
  using assms
  by (auto simp: cashflow_block_def take_row_def Let_def lookup_row_def dict_get_def
      split: sum.splits option.splits)

lemma income_block_cash_keys:
  "income_block s out_init ''Cash From Ops (TTM)'' = Some PNone"
  "income_block s out_init ''CapEx (TTM)'' = Some PNone"
  "income_block s out_init ''Free Cash Flow (TTM)'' = Some PNone"
  by (simp_all add: income_block_other) (simp_all add: out_init_def)

text \<open>
  C6. The extractor is total, and each of the six figures it reads is what its own
  lookup finds: the cell of its row in the first column of its table, or \<open>None\<close> when
  reading the table raises or the table is \<open>None\<close>, is empty or lacks the row. No other
  table or row enters the figure.
\<close>

theorem extractor_fields_independent:
  "get_statement_metrics s ''Revenue (TTM)'' =
     Some (lookup_row (financials s) ''Total Revenue'') \<and>
   get_statement_metrics s ''Net Income (TTM)'' =
     Some (lookup_row (financials s) ''Net Income'') \<and>
   get_statement_metrics s ''Operating Income (TTM)'' =
     Some (lookup_row (financials s) ''Operating Income'') \<and>
   get_statement_metrics s ''EBITDA (TTM)'' =
     Some (lookup_row (financials s) ''EBITDA'') \<and>
   get_statement_metrics s ''Cash From Ops (TTM)'' =
     Some (lookup_row (cashflow s) ''Total Cash From Operating Activities'') \<and>
   get_statement_metrics s ''CapEx (TTM)'' =
     Some (lookup_row (cashflow s) ''Capital Expenditures'')"
  unfolding get_statement_metrics_def
  by (simp add: cashflow_block_other income_block_fields
      cashflow_block_fields [OF income_block_cash_keys])

theorem extractor_fields_independent_witness:
  "get_statement_metrics example_stock ''Revenue (TTM)'' = Some PNone \<and>
   get_statement_metrics example_stock ''Cash From Ops (TTM)'' = Some (PNum 5000000000) \<and>
   get_statement_metrics example_stock ''CapEx (TTM)'' = Some (PNum (- 1200000000))"
  using extractor_fields_independent [of example_stock]
  by (simp add: example_stock_def example_cashflow_def lookup_row_def frame_empty_def)




section \<open>Comparison mode: no table on an input error or a failed acquisition\<close>

lemma fetch_all_region:
  "region (fst (fetch_all yf period n i ts sd sh)) = region sh"
  by (induction ts arbitrary: i sd sh)
    (auto simp: Let_def split: option.splits prod.splits)

lemma fetch_all_fails:
  assumes "\<exists>t \<in> set ts. acquisition_fails yf period t"
  shows "\<exists>t \<in> set ts. acquisition_fails yf period t \<and>
           fetch_all yf period n i ts sd sh = (sh\<lparr>status := error_loading t\<rparr>, None)"
  using assms
proof (induction ts arbitrary: i sd sh)
  case Nil
  then show ?case by simp
next
  case (Cons t ts)
  show ?case
  proof (cases "acquisition_fails yf period t")
    case True
    then have "fetch_all yf period n i (t # ts) sd sh = (sh\<lparr>status := error_loading t\<rparr>, None)"
      by (auto simp: acquisition_fails_def error_loading_def Let_def
          split: option.splits prod.splits)
    with True show ?thesis by auto
  next
    case False
    with Cons.prems have later: "\<exists>t \<in> set ts. acquisition_fails yf period t" by auto
    from False obtain stock hist info where
      g: "get_stock_data yf t period = Some (stock, Some hist, info)" and h: "hist \<noteq> []"
      by (auto simp: acquisition_fails_def split: option.splits prod.splits)
    define sh' where "sh' = sh\<lparr>status := ''Loading '' @ t @ '' ('' @ nat_digits (i + 1) @ ''/'' @
      nat_digits n @ '')...''\<rparr>"
    define sd' where "sd' = sd(t \<mapsto> \<lparr>e_stock = stock, e_hist = hist, e_info = info,
      e_metrics = calculate_key_metrics info hist (get_statement_metrics stock)\<rparr>)"
    have step: "fetch_all yf period n i (t # ts) sd sh = fetch_all yf period n (i + 1) ts sd' sh'"
      using g h by (simp add: Let_def sh'_def sd'_def)
    from Cons.IH [OF later, of "i + 1" sd' sh'] obtain u where
      u: "u \<in> set ts" "acquisition_fails yf period u"
        "fetch_all yf period n (i + 1) ts sd' sh' = (sh'\<lparr>status := error_loading u\<rparr>, None)"
      by blast
    have "sh'\<lparr>status := error_loading u\<rparr> = sh\<lparr>status := error_loading u\<rparr>"
      by (simp add: sh'_def)
    with u step show ?thesis by auto
  qed
qed

text \<open>
  C8. With fewer than two tickers the status cell asks for two and the region is left
  as it was. With two or three tickers of which one fails to load, the region has been
  cleared and stays empty, and the status cell names a ticker that failed.
\<close>

theorem compare_stops_without_table:
  "(length (build_tickers [ticker1 inp, ticker2 inp, ticker3 inp]) < 2 \<longrightarrow>
      compare_stocks yf inp sh = sh\<lparr>status := ''Please enter at least 2 tickers''\<rparr>) \<and>
   (2 \<le> length (build_tickers [ticker1 inp, ticker2 inp, ticker3 inp]) \<and>
    (\<exists>t \<in> set (build_tickers [ticker1 inp, ticker2 inp, ticker3 inp]).
       acquisition_fails yf (period_of (period_cell inp)) t) \<longrightarrow>
      (\<exists>t \<in> set (build_tickers [ticker1 inp, ticker2 inp, ticker3 inp]).
         acquisition_fails yf (period_of (period_cell inp)) t \<and>
         compare_stocks yf inp sh = \<lparr>status = error_loading t, region = Map.empty\<rparr>))"
proof (intro conjI impI)
  assume "length (build_tickers [ticker1 inp, ticker2 inp, ticker3 inp]) < 2"
  then show "compare_stocks yf inp sh = sh\<lparr>status := ''Please enter at least 2 tickers''\<rparr>"
    by (simp add: compare_stocks_def Let_def)
next
  define ts where "ts = build_tickers [ticker1 inp, ticker2 inp, ticker3 inp]"
  define p where "p = period_of (period_cell inp)"
  assume a: "2 \<le> length (build_tickers [ticker1 inp, ticker2 inp, ticker3 inp]) \<and>
    (\<exists>t \<in> set (build_tickers [ticker1 inp, ticker2 inp, ticker3 inp]).
       acquisition_fails yf (period_of (period_cell inp)) t)"
  then have len: "\<not> length ts < 2" and ex: "\<exists>t \<in> set ts. acquisition_fails yf p t"
    by (simp_all add: ts_def p_def)
  from fetch_all_fails [OF ex, of "length ts" 0 Map.empty "sh\<lparr>region := Map.empty\<rparr>"]
  obtain t where t: "t \<in> set ts" "acquisition_fails yf p t"
    "fetch_all yf p (length ts) 0 ts Map.empty (sh\<lparr>region := Map.empty\<rparr>) =
       (sh\<lparr>region := Map.empty, status := error_loading t\<rparr>, None)"
    by auto
  have "compare_stocks yf inp sh = sh\<lparr>region := Map.empty, status := error_loading t\<rparr>"
    using len t(3) unfolding compare_stocks_def Let_def ts_def [symmetric] p_def [symmetric]
    by simp
  also have "\<dots> = \<lparr>status = error_loading t, region = Map.empty\<rparr>"
    by simp
  finally show "\<exists>t \<in> set (build_tickers [ticker1 inp, ticker2 inp, ticker3 inp]).
         acquisition_fails yf (period_of (period_cell inp)) t \<and>
         compare_stocks yf inp sh = \<lparr>status = error_loading t, region = Map.empty\<rparr>"
    using t(1,2) unfolding ts_def p_def by blast
qed

lemma example_tickers:
  "build_tickers [ticker1 one_ticker, ticker2 one_ticker, ticker3 one_ticker] = [''AAPL'']"
  "build_tickers [ticker1 unknown_ticker, ticker2 unknown_ticker, ticker3 unknown_ticker] =
     [''AAPL'', ''TSLA'']"
  by code_simp+

lemma example_fails:
  "acquisition_fails example_provider (period_of (period_cell unknown_ticker)) ''TSLA''"
  by code_simp

theorem compare_stops_without_table_witness:
  "compare_stocks example_provider one_ticker blank_sheet =
     \<lparr>status = ''Please enter at least 2 tickers'', region = Map.empty\<rparr> \<and>
   compare_stocks example_provider unknown_ticker blank_sheet =
     \<lparr>status = ''Error loading TSLA - no data returned'', region = Map.empty\<rparr>"
proof -
  have "compare_stocks example_provider one_ticker blank_sheet =
      blank_sheet\<lparr>status := ''Please enter at least 2 tickers''\<rparr>"
    using compare_stops_without_table [of one_ticker example_provider blank_sheet]
    unfolding example_tickers by simp
  then have a: "compare_stocks example_provider one_ticker blank_sheet =
      \<lparr>status = ''Please enter at least 2 tickers'', region = Map.empty\<rparr>"
    by (simp add: blank_sheet_def)
  have "\<not> acquisition_fails example_provider (period_of (period_cell unknown_ticker)) ''AAPL''"
    by code_simp
  then have "compare_stocks example_provider unknown_ticker blank_sheet =
      \<lparr>status = error_loading ''TSLA'', region = Map.empty\<rparr>"
    using compare_stops_without_table [of unknown_ticker example_provider blank_sheet]
      example_fails
    unfolding example_tickers by simp
  then have b: "compare_stocks example_provider unknown_ticker blank_sheet =
      \<lparr>status = ''Error loading TSLA - no data returned'', region = Map.empty\<rparr>"
    by (simp add: error_loading_def)
  from a b show ?thesis by simp
qed

subsection \<open>The success path writes the table\<close>

lemma write_columns_other:
  "r \<noteq> row \<Longrightarrow> region (write_columns row i f sd ts sh) (r, c) = region sh (r, c)"
  by (induction ts arbitrary: i sh) (auto simp: write_cell_def split: option.splits)

lemma write_blanks_other:
  "r \<noteq> row \<Longrightarrow> region (write_blanks row c k sh) (r, c') = region sh (r, c')"
  by (induction k arbitrary: c sh) (auto simp: write_cell_def)

lemma write_metric_rows_next: "fst (write_metric_rows sd ts ms row sh) = row + length ms"
  by (induction ms arbitrary: row sh) (auto simp: Let_def)

lemma write_metric_rows_other:
  "r < row \<Longrightarrow> region (snd (write_metric_rows sd ts ms row sh)) (r, c) = region sh (r, c)"
  by (induction ms arbitrary: row sh) (auto simp: Let_def write_columns_other write_cell_def)

lemma write_sections_other:
  "r < row \<Longrightarrow> region (snd (write_sections sd ts secs row sh)) (r, c) = region sh (r, c)"
proof (induction secs arbitrary: row sh)
  case Nil
  then show ?case by simp
next
  case (Cons sec secs)
  obtain name keys where sec: "sec = (name, keys)" by (cases sec)
  define sh1 where "sh1 = write_blanks row 2 (length ts) (write_cell row 1 (PStr name) sh)"
  obtain row2 sh2 where w: "write_metric_rows sd ts keys (row + 1) sh1 = (row2, sh2)"
    by (cases "write_metric_rows sd ts keys (row + 1) sh1")
  have row2: "row2 = row + 1 + length keys"
    using write_metric_rows_next [of sd ts keys "row + 1" sh1] w by simp
  have "region sh2 (r, c) = region sh1 (r, c)"
    using write_metric_rows_other [of r "row + 1" sd ts keys sh1 c] w Cons.prems by simp
  also have "\<dots> = region sh (r, c)"
    using Cons.prems by (simp add: sh1_def write_blanks_other write_cell_def)
  finally have keep: "region sh2 (r, c) = region sh (r, c)" .
  have "region (snd (write_sections sd ts (sec # secs) row sh)) (r, c) =
        region (snd (write_sections sd ts secs (row2 + 1) sh2)) (r, c)"
    using w by (simp add: sec Let_def sh1_def)
  also have "\<dots> = region sh2 (r, c)"
    using Cons.prems row2 by (intro Cons.IH) simp
  finally show ?case using keep by simp
qed

lemma build_table_title:
  "region (build_table sd ts sh) (10, 1) = Some (PStr ''STOCK COMPARISON'')"
  by (simp add: build_table_def Let_def write_sections_other write_columns_other write_cell_def)

lemma fetch_all_loads:
  "\<forall>t \<in> set ts. \<not> acquisition_fails yf period t \<Longrightarrow>
   \<exists>sd'. snd (fetch_all yf period n i ts sd sh) = Some sd'"
proof (induction ts arbitrary: i sd sh)
  case Nil
  then show ?case by simp
next
  case (Cons t ts)
  then obtain stock hist info where
    g: "get_stock_data yf t period = Some (stock, Some hist, info)" and h: "hist \<noteq> []"
    by (auto simp: acquisition_fails_def split: option.splits prod.splits)
  from Cons show ?case
    by (simp add: g h Let_def)
qed

text \<open>
  When two or three tickers are given and every one loads, the run writes the table
  and ends with the completion message.
\<close>

lemma compare_renders_when_all_load:
  assumes "2 \<le> length (build_tickers [ticker1 inp, ticker2 inp, ticker3 inp])"
    and "\<forall>t \<in> set (build_tickers [ticker1 inp, ticker2 inp, ticker3 inp]).
           \<not> acquisition_fails yf (period_of (period_cell inp)) t"
  shows "status (compare_stocks yf inp sh) = complete_message \<and>
         region (compare_stocks yf inp sh) (10, 1) = Some (PStr ''STOCK COMPARISON'')"
proof -
  define ts where "ts = build_tickers [ticker1 inp, ticker2 inp, ticker3 inp]"
  define p where "p = period_of (period_cell inp)"
  obtain sh' r where f: "fetch_all yf p (length ts) 0 ts Map.empty (sh\<lparr>region := Map.empty\<rparr>) = (sh', r)"
    by (cases "fetch_all yf p (length ts) 0 ts Map.empty (sh\<lparr>region := Map.empty\<rparr>)")
  from fetch_all_loads [of ts yf p "length ts" 0 Map.empty "sh\<lparr>region := Map.empty\<rparr>"] assms(2) f
  obtain sd where r: "r = Some sd" by (auto simp: ts_def p_def)
  from assms(1) have len: "\<not> length ts < 2" by (simp add: ts_def)
  show ?thesis
    using len f r
    unfolding compare_stocks_def Let_def ts_def [symmetric] p_def [symmetric]
    by (simp add: Let_def build_table_title del: One_nat_def)
qed

section \<open>News retriever\<close>

lemma feed_loop_length:
  "length (fst (feed_loop tf items acc)) \<le> length acc + length items"
proof (induction items arbitrary: acc)
  case Nil
  then show ?case by simp
next
  case (Cons item items)
  show ?case
    using Cons.IH [of acc] Cons.IH [of "acc @ [\<lparr>Title = dict_get_default item ''title'' (PStr ''N/A''),
      Publisher = dict_get_default item ''publisher'' (PStr ''N/A''),
      Link = dict_get_default item ''link'' (PStr ''N/A''),
      Published = projr (published_of tf (dict_get_default item ''providerPublishTime'' (PNum 0)))\<rparr>]"]
    by (auto simp: Let_def split: sum.splits)
qed

lemma method1_cases:
  assumes "method1 w ticker [] = (nd, b)"
  shows "length nd \<le> 10 \<and> (b \<longrightarrow> nd \<noteq> [])"
proof (cases "yf_news w ticker")
  case (Inl e)
  with assms show ?thesis by (simp add: method1_def)
next
  case (Inr r)
  show ?thesis
  proof (cases r)
    case None
    with Inr assms show ?thesis by (simp add: method1_def)
  next
    case (Some news)
    have "length (fst (feed_loop (strftime w) (take 10 news) [])) \<le> 10"
      using feed_loop_length [of "strftime w" "take 10 news" "[]"] by simp
    with Inr Some assms show ?thesis
      by (auto simp: method1_def split: if_splits prod.splits option.splits)
  qed
qed

text \<open>The list is never empty: the placeholder fills an empty one.\<close>

lemma get_stock_news_nonempty: "get_stock_news w ticker \<noteq> []"
  by (auto simp: get_stock_news_def method2_def Let_def
      split: prod.splits bool.splits sum.splits if_splits dest: method1_cases)

text \<open>When both sources fail the result is the placeholder alone.\<close>

lemma get_stock_news_placeholder:
  "get_stock_news silent_world ticker = [placeholder ticker]"
  by (simp add: get_stock_news_def method1_def method2_def silent_world_def)

text \<open>
  When the loop over the structured feed does not raise, at most ten items come back.
\<close>

lemma method1_no_raise:
  assumes "\<forall>news. yf_news w ticker = Inr (Some news) \<longrightarrow>
             snd (feed_loop (strftime w) (take 10 news) []) = None"
    and "method1 w ticker [] = (nd, False)"
  shows "nd = []"
proof (cases "yf_news w ticker")
  case (Inl e)
  with assms(2) show ?thesis by (simp add: method1_def)
next
  case (Inr r)
  show ?thesis
  proof (cases r)
    case None
    with Inr assms(2) show ?thesis by (simp add: method1_def)
  next
    case (Some news)
    with Inr assms(1) have "snd (feed_loop (strftime w) (take 10 news) []) = None" by simp
    with Inr Some assms(2) show ?thesis
      by (auto simp: method1_def split: if_splits prod.splits option.splits)
  qed
qed

lemma get_stock_news_at_most_ten:
  assumes "\<forall>news. yf_news w ticker = Inr (Some news) \<longrightarrow>
             snd (feed_loop (strftime w) (take 10 news) []) = None"
  shows "length (get_stock_news w ticker) \<le> 10"
proof -
  obtain nd b where m: "method1 w ticker [] = (nd, b)" by (cases "method1 w ticker []")
  show ?thesis
  proof (cases b)
    case True
    with m method1_cases [OF m] show ?thesis by (simp add: get_stock_news_def)
  next
    case False
    with m method1_no_raise [OF assms] have "nd = []" by simp
    with m False show ?thesis
      by (auto simp: get_stock_news_def method2_def Let_def split: sum.splits)
  qed
qed

text \<open>
  C9 at the failing input. The structured feed raises on its tenth item after nine
  items were appended; the RSS items are appended to the same list, and nineteen
  items are returned where the claim allows ten.
\<close>

theorem news_exceeds_ten_items:
  "length (get_stock_news failing_world ''AAPL'') = 19"
  by code_simp

end
